theory Spec2Isabelle
  imports Complex_Main
begin

section \<open>The retrieval pipeline of \<^verbatim>\<open>rag_pipeline.py\<close>\<close>

text \<open>
  The class \<^verbatim>\<open>RAGPipeline\<close> drives three libraries: a vector store (the ChromaDB
  client and its collections), a sentence embedding model and a text splitter. Their code
  is not part of the repository. The store is modelled as a map from collection names to
  collections, a collection holding its records in insertion order; the model, the
  splitter and the nearest-neighbour search of a collection are parameters, gathered in
  the record \<open>deps\<close>. Python exceptions are values of the type \<open>error\<close>; a function
  that can raise returns \<open>error + 'a\<close>. Floating-point numbers are modelled as reals,
  without rounding; the similarity of the reranker has the value NaN as well.
\<close>

subsection \<open>Python values\<close>

datatype error =
    NotFoundError      \<comment> \<open>\<^verbatim>\<open>get_collection\<close> on a name that has no collection\<close>
  | IndexError         \<comment> \<open>a list read out of range\<close>
  | ValueError         \<comment> \<open>arguments of mismatching shape\<close>
  | DuplicateIDError   \<comment> \<open>\<^verbatim>\<open>add\<close> with an id that is already taken\<close>
  | ModelError         \<comment> \<open>any failure of the embedding model\<close>
  | BackendError       \<comment> \<open>any other failure of the vector store\<close>

type_synonym vec = "real list"

datatype mvalue = MInt int | MStr string

text \<open>
  A floating-point number as the similarity of \<^verbatim>\<open>rerank_chunks\<close> needs it. Rounding is
  not modelled, but the value NaN is: it is what the division of line 204 gives for
  \<open>0 / 0\<close>, with a warning and no exception, and every comparison with it is false.
\<close>

datatype py_float = Number real | NaN

type_synonym metadata = "string \<rightharpoonup> mvalue"

text \<open>\<^verbatim>\<open>str(n)\<close> for an integer: decimal digits, a minus sign for a negative number.\<close>

fun str_nat :: "nat \<Rightarrow> string" where
  "str_nat n =
     (if n < 10 then [''0123456789'' ! n]
      else str_nat (n div 10) @ [''0123456789'' ! (n mod 10)])"

declare str_nat.simps [simp del]

definition py_str :: "int \<Rightarrow> string" where
  "py_str i = (if i < 0 then ''-'' @ str_nat (nat (- i)) else str_nat (nat i))"

text \<open>\<^verbatim>\<open>xs[j]\<close> for \<open>j \<ge> 0\<close>: raises IndexError out of range.\<close>

definition py_index :: "'a list \<Rightarrow> nat \<Rightarrow> error + 'a" where
  "py_index xs j = (if j < length xs then Inr (xs ! j) else Inl IndexError)"

text \<open>\<^verbatim>\<open>xs[:k]\<close>: the first \<open>k\<close> elements, and for a negative \<open>k\<close> all but the last \<open>-k\<close>.\<close>

definition py_slice_to :: "'a list \<Rightarrow> int \<Rightarrow> 'a list" where
  "py_slice_to xs k =
     (if 0 \<le> k then take (nat k) xs else take (length xs - nat (- k)) xs)"

text \<open>Sequencing of calls that can raise: the first exception ends the computation.\<close>

definition bind_err :: "error + 'a \<Rightarrow> ('a \<Rightarrow> error + 'b) \<Rightarrow> error + 'b" where
  "bind_err m f = (case m of Inl e \<Rightarrow> Inl e | Inr x \<Rightarrow> f x)"

text \<open>\<^verbatim>\<open>enumerate(xs)\<close>\<close>

definition enumerate_py :: "'a list \<Rightarrow> (nat \<times> 'a) list" where
  "enumerate_py xs = zip [0..<length xs] xs"

subsection \<open>The vector store\<close>

record entry =
  entry_id :: string
  entry_embedding :: vec
  entry_document :: string
  entry_metadata :: metadata

record collection =
  coll_name :: string
  coll_metadata :: metadata
  coll_entries :: "entry list"

type_synonym chroma_client = "string \<rightharpoonup> collection"

text \<open>The answer of \<^verbatim>\<open>collection.query\<close>: one inner list per query embedding.\<close>

record query_result =
  qr_ids :: "string list list"
  qr_documents :: "string list list"
  qr_metadatas :: "metadata list list"
  qr_distances :: "real list list"

text \<open>
  \<^verbatim>\<open>collection.add\<close> on an id that the collection already holds: current versions of the
  store leave the old record and drop the new one without an error, older ones raise.
  Both behaviours are kept, as a parameter.
\<close>

datatype add_policy = SkipExisting | RejectExisting

record deps =
  model_encode :: "string list \<Rightarrow> error + vec list"
    \<comment> \<open>\<^verbatim>\<open>self.embedding_model.encode(texts)\<close>\<close>
  splitter_split_text :: "string \<Rightarrow> string list"
    \<comment> \<open>\<^verbatim>\<open>self.text_splitter.split_text(text)\<close>\<close>
  chroma_query :: "collection \<Rightarrow> vec \<Rightarrow> int \<Rightarrow> error + query_result"
    \<comment> \<open>\<^verbatim>\<open>collection.query(query_embeddings=[e], n_results=n, include=[...])\<close>\<close>
  chroma_on_existing :: add_policy
  sort_nan_keys :: "(nat \<times> py_float) list \<Rightarrow> (nat \<times> py_float) list"
    \<comment> \<open>\<^verbatim>\<open>xs.sort(key=lambda x: x[1], reverse=True)\<close> on a list with a NaN key\<close>

text \<open>
  The operations of the store that the pipeline calls. \<^verbatim>\<open>get_collection\<close> raises for a
  name that has no collection; \<^verbatim>\<open>create_collection\<close> makes an empty collection and
  returns its handle; \<^verbatim>\<open>count\<close> is the number of records; \<^verbatim>\<open>add\<close> checks that its
  four lists have one length and that no id occurs twice in the batch, then appends the
  records whose ids are free.
\<close>

definition get_collection :: "chroma_client \<Rightarrow> string \<Rightarrow> error + collection" where
  "get_collection client name =
     (case client name of None \<Rightarrow> Inl NotFoundError | Some c \<Rightarrow> Inr c)"

definition create_collection ::
  "chroma_client \<Rightarrow> string \<Rightarrow> metadata \<Rightarrow> collection \<times> chroma_client" where
  "create_collection client name md =
     (let c = \<lparr>coll_name = name, coll_metadata = md, coll_entries = []\<rparr>
      in (c, client(name \<mapsto> c)))"

definition collection_count :: "collection \<Rightarrow> nat" where
  "collection_count c = length (coll_entries c)"

definition make_entries ::
  "string list \<Rightarrow> vec list \<Rightarrow> string list \<Rightarrow> metadata list \<Rightarrow> entry list" where
  "make_entries ids embeddings documents metadatas =
     map (\<lambda>(i, e, t, m).
            \<lparr>entry_id = i, entry_embedding = e, entry_document = t, entry_metadata = m\<rparr>)
         (zip ids (zip embeddings (zip documents metadatas)))"

definition collection_add ::
  "add_policy \<Rightarrow> collection \<Rightarrow> string list \<Rightarrow> vec list \<Rightarrow> string list \<Rightarrow> metadata list
     \<Rightarrow> error + collection" where
  "collection_add pol c ids embeddings documents metadatas =
     (if length embeddings \<noteq> length ids \<or> length documents \<noteq> length ids
           \<or> length metadatas \<noteq> length ids then Inl ValueError
      else if \<not> distinct ids then Inl DuplicateIDError
      else
        let old = set (map entry_id (coll_entries c));
            new = make_entries ids embeddings documents metadatas
        in (case pol of
              SkipExisting \<Rightarrow>
                Inr (c\<lparr>coll_entries :=
                          coll_entries c @ filter (\<lambda>e. entry_id e \<notin> old) new\<rparr>)
            | RejectExisting \<Rightarrow>
                if set ids \<inter> old \<noteq> {} then Inl DuplicateIDError
                else Inr (c\<lparr>coll_entries := coll_entries c @ new\<rparr>)))"

subsection \<open>Embedding and chunking\<close>

definition create_embeddings :: "deps \<Rightarrow> string list \<Rightarrow> error + vec list" where
  "create_embeddings d texts = model_encode d texts"

definition chunk_document :: "deps \<Rightarrow> string \<Rightarrow> string list" where
  "chunk_document d text = splitter_split_text d text"

text \<open>The name \<^verbatim>\<open>f"doc_{doc_id}"\<close> of the collection of a document.\<close>

definition collection_name_of :: "int \<Rightarrow> string" where
  "collection_name_of doc_id = ''doc_'' @ py_str doc_id"

subsection \<open>Query expansion\<close>

definition expand_query :: "string \<Rightarrow> string list" where
  "expand_query query =
     py_slice_to
       [ query,
         ''What is '' @ query @ ''?'',
         ''Explain '' @ query,
         ''Information about '' @ query,
         ''Details regarding '' @ query,
         ''Can you tell me about '' @ query @ ''?'' ] 6"

subsection \<open>Hybrid search\<close>

text \<open>The dictionaries that \<^verbatim>\<open>hybrid_search\<close> builds and \<^verbatim>\<open>rerank_chunks\<close> extends.\<close>

record chunk =
  r_id :: string
  r_text :: string
  r_metadata :: metadata
  r_distance :: real
  r_query_variation :: nat
  r_similarity :: "py_float option"   \<comment> \<open>the key is absent until \<^verbatim>\<open>rerank_chunks\<close> sets it\<close>

text \<open>
  The dictionary for hit \<open>j\<close> of variation \<open>i\<close>. Each of the four reads
  \<^verbatim>\<open>results[...][0][j]\<close> can raise IndexError.
\<close>

definition result_row :: "query_result \<Rightarrow> nat \<Rightarrow> nat \<Rightarrow> error + chunk" where
  "result_row results i j =
     bind_err (py_index (hd (qr_ids results)) j) (\<lambda>rid.
     bind_err (py_index (qr_documents results) 0) (\<lambda>documents.
     bind_err (py_index documents j) (\<lambda>document.
     bind_err (py_index (qr_metadatas results) 0) (\<lambda>metadatas.
     bind_err (py_index metadatas j) (\<lambda>md.
     bind_err (py_index (qr_distances results) 0) (\<lambda>distances.
     bind_err (py_index distances j) (\<lambda>distance.
       Inr \<lparr>r_id = rid, r_text = document, r_metadata = md, r_distance = distance,
            r_query_variation = i, r_similarity = None\<rparr>)))))))"

text \<open>
  The inner loop over \<open>j\<close>. An exception leaves the loop for the handler of the
  variation; the rows appended before it stay in \<^verbatim>\<open>all_results\<close>.
\<close>

fun process_results :: "query_result \<Rightarrow> nat \<Rightarrow> nat list \<Rightarrow> chunk list" where
  "process_results results i [] = []"
| "process_results results i (j # js) =
     (case result_row results i j of
        Inl e \<Rightarrow> []
      | Inr row \<Rightarrow> row # process_results results i js)"

text \<open>One pass of the loop over the query embeddings: the rows it appends.\<close>

definition search_variation :: "deps \<Rightarrow> collection \<Rightarrow> int \<Rightarrow> nat \<times> vec \<Rightarrow> chunk list" where
  "search_variation d c top_k iq =
     (case chroma_query d c (snd iq) (min top_k 10) of
        Inl e \<Rightarrow> []
      | Inr results \<Rightarrow>
          if qr_ids results \<noteq> []
          then process_results results (fst iq) [0..<length (hd (qr_ids results))]
          else [])"

definition all_results :: "deps \<Rightarrow> collection \<Rightarrow> int \<Rightarrow> (nat \<times> vec) list \<Rightarrow> chunk list" where
  "all_results d c top_k iqs = concat (map (search_variation d c top_k) iqs)"

text \<open>
  The deduplication loop over the sorted results, with its two variables
  \<^verbatim>\<open>seen_ids\<close> and \<^verbatim>\<open>unique_results\<close>.
\<close>

fun unique_results :: "string set \<Rightarrow> chunk list \<Rightarrow> int \<Rightarrow> chunk list \<Rightarrow> chunk list" where
  "unique_results seen_ids uniq top_k [] = uniq"
| "unique_results seen_ids uniq top_k (result # rest) =
     (if r_id result \<notin> seen_ids
      then (if top_k \<le> int (length (uniq @ [result])) then uniq @ [result]
            else unique_results (insert (r_id result) seen_ids) (uniq @ [result]) top_k rest)
      else unique_results seen_ids uniq top_k rest)"

definition hybrid_search ::
  "deps \<Rightarrow> chroma_client \<Rightarrow> int \<Rightarrow> string \<Rightarrow> int \<Rightarrow> error + chunk list" where
  "hybrid_search d client doc_id query top_k =
     (case get_collection client (collection_name_of doc_id) of
        Inl e \<Rightarrow> Inr []
      | Inr c \<Rightarrow>
          (case create_embeddings d (expand_query query) of
             Inl e \<Rightarrow> Inl e
           | Inr query_embeddings \<Rightarrow>
               Inr (unique_results {} [] top_k
                      (sort_key r_distance
                         (all_results d c top_k (enumerate_py query_embeddings))))))"

subsection \<open>Reranking\<close>

definition dot :: "vec \<Rightarrow> vec \<Rightarrow> error + real" where
  "dot a b =
     (if length a \<noteq> length b then Inl ValueError
      else Inr (sum_list (map (\<lambda>(x, y). x * y) (zip a b))))"

definition norm_vec :: "vec \<Rightarrow> real" where
  "norm_vec a = sqrt (sum_list (map (\<lambda>x. x * x) a))"

text \<open>
  \<^verbatim>\<open>dot(q, c) / (norm(q) * norm(c))\<close>. The divisor is 0 only when one of the two vectors
  is all zeros, and then the dividend is 0 as well (lemma \<open>dot_zero_norm\<close> below): the
  quotient is NaN, never an infinity.
\<close>

definition cosine_similarity :: "vec \<Rightarrow> vec \<Rightarrow> error + py_float" where
  "cosine_similarity q c =
     (case dot q c of
        Inl e \<Rightarrow> Inl e
      | Inr p \<Rightarrow>
          if norm_vec q * norm_vec c = 0 then Inr NaN
          else Inr (Number (p / (norm_vec q * norm_vec c))))"

text \<open>
  The scoring loop: it writes the similarity into \<^verbatim>\<open>chunks[i]\<close> and appends
  \<^verbatim>\<open>(i, similarity)\<close> to \<^verbatim>\<open>similarities\<close>.
\<close>

fun score_chunks ::
  "vec \<Rightarrow> chunk list \<Rightarrow> (nat \<times> py_float) list \<Rightarrow> (nat \<times> vec) list
     \<Rightarrow> error + chunk list \<times> (nat \<times> py_float) list" where
  "score_chunks q chunks sims [] = Inr (chunks, sims)"
| "score_chunks q chunks sims ((i, chunk_emb) # rest) =
     (case cosine_similarity q chunk_emb of
        Inl e \<Rightarrow> Inl e
      | Inr s \<Rightarrow>
          if i < length chunks
          then score_chunks q (chunks[i := (chunks ! i)\<lparr>r_similarity := Some s\<rparr>])
                 (sims @ [(i, s)]) rest
          else Inl IndexError)"

text \<open>
  \<^verbatim>\<open>xs.sort(key=f, reverse=True)\<close> on keys that are numbers: a stable sort in descending
  order of the key, elements with equal keys keeping their order.
\<close>

definition sort_reverse :: "('a \<Rightarrow> 'k::linorder) \<Rightarrow> 'a list \<Rightarrow> 'a list" where
  "sort_reverse f xs = rev (sort_key f (rev xs))"

text \<open>The pairs whose similarity is a number, with that number.\<close>

fun numbers :: "(nat \<times> py_float) list \<Rightarrow> (nat \<times> real) list" where
  "numbers [] = []"
| "numbers ((i, Number x) # rest) = (i, x) # numbers rest"
| "numbers ((i, NaN) # rest) = numbers rest"

text \<open>
  \<^verbatim>\<open>similarities.sort(key=lambda x: x[1], reverse=True)\<close>. When no similarity is NaN the
  keys are numbers, and the sort is the one above. With a NaN among the keys the
  comparisons are no order, and where the elements end up is decided by the interpreter's
  sorting algorithm: that result is the parameter \<open>sort_nan_keys\<close>.
\<close>

definition sort_similarities ::
  "deps \<Rightarrow> (nat \<times> py_float) list \<Rightarrow> (nat \<times> py_float) list" where
  "sort_similarities d similarities =
     (if NaN \<in> snd ` set similarities then sort_nan_keys d similarities
      else map (\<lambda>(i, x). (i, Number x)) (sort_reverse snd (numbers similarities)))"

text \<open>
  \<^verbatim>\<open>[chunks[i] for i, _ in ...]\<close>: each read of \<^verbatim>\<open>chunks[i]\<close> raises IndexError out of
  range.
\<close>

fun collect_chunks :: "chunk list \<Rightarrow> (nat \<times> py_float) list \<Rightarrow> error + chunk list" where
  "collect_chunks chunks [] = Inr []"
| "collect_chunks chunks ((i, s) # rest) =
     bind_err (py_index chunks i) (\<lambda>c.
     bind_err (collect_chunks chunks rest) (\<lambda>cs. Inr (c # cs)))"

definition rerank_chunks :: "deps \<Rightarrow> string \<Rightarrow> chunk list \<Rightarrow> int \<Rightarrow> error + chunk list" where
  "rerank_chunks d query chunks top_k =
     (if chunks = [] then Inr []
      else
        bind_err (model_encode d [query]) (\<lambda>query_embeddings.
        bind_err (py_index query_embeddings 0) (\<lambda>query_embedding.
        bind_err (model_encode d (map r_text chunks)) (\<lambda>chunk_embeddings.
        bind_err (score_chunks query_embedding chunks [] (enumerate_py chunk_embeddings))
          (\<lambda>(scored, similarities).
             collect_chunks scored
               (py_slice_to (sort_similarities d similarities) top_k))))))"

definition retrieve_context ::
  "deps \<Rightarrow> chroma_client \<Rightarrow> int \<Rightarrow> string \<Rightarrow> string \<Rightarrow> error + chunk list" where
  "retrieve_context d client doc_id query intent =
     (case hybrid_search d client doc_id query 20 of
        Inl e \<Rightarrow> Inl e
      | Inr chunks \<Rightarrow>
          if chunks = [] then Inr []
          else if intent = ''document'' then rerank_chunks d query chunks 5
          else if intent = ''section'' then rerank_chunks d query chunks 3
          else rerank_chunks d query chunks 3)"

subsection \<open>Storing a document, and the statistics of its collection\<close>

text \<open>
  The ids \<^verbatim>\<open>f"chunk_{i}"\<close> and the metadata dictionaries of the chunks of one call; the
  caller's metadata is merged last and wins on a shared key.
\<close>

definition chunk_ids :: "nat \<Rightarrow> string list" where
  "chunk_ids n = map (\<lambda>i. ''chunk_'' @ py_str (int i)) [0..<n]"

definition chunk_metadatas :: "int \<Rightarrow> metadata option \<Rightarrow> nat \<Rightarrow> metadata list" where
  "chunk_metadatas doc_id md n =
     map (\<lambda>i. [''chunk_index'' \<mapsto> MInt (int i), ''doc_id'' \<mapsto> MStr (py_str doc_id)]
                ++ (case md of None \<Rightarrow> Map.empty | Some m \<Rightarrow> m))
         [0..<n]"

text \<open>
  \<^verbatim>\<open>store_document\<close> returns the collection's name or raises; either way the store is
  left as the calls made so far have changed it.
\<close>

definition store_document ::
  "deps \<Rightarrow> chroma_client \<Rightarrow> int \<Rightarrow> string \<Rightarrow> metadata option
     \<Rightarrow> (error + string) \<times> chroma_client" where
  "store_document d client doc_id text md =
     (let collection_name = collection_name_of doc_id;
          (c, client1) =
             (case get_collection client collection_name of
                Inr c \<Rightarrow> (c, client)
              | Inl e \<Rightarrow> create_collection client collection_name
                          [''doc_id'' \<mapsto> MStr (py_str doc_id)]);
          chunks = chunk_document d text
      in if chunks = [] then (Inr collection_name, client1)
         else
           case create_embeddings d chunks of
             Inl e \<Rightarrow> (Inl e, client1)
           | Inr embeddings \<Rightarrow>
               (case collection_add (chroma_on_existing d) c (chunk_ids (length chunks))
                       embeddings chunks (chunk_metadatas doc_id md (length chunks)) of
                  Inl e \<Rightarrow> (Inl e, client1)
                | Inr c' \<Rightarrow> (Inr collection_name, client1(collection_name \<mapsto> c'))))"

record stats =
  st_collection_name :: string
  st_chunk_count :: nat
  st_exists :: bool
  st_error :: "error option"

definition get_collection_stats :: "chroma_client \<Rightarrow> int \<Rightarrow> stats \<times> chroma_client" where
  "get_collection_stats client doc_id =
     (let collection_name = collection_name_of doc_id
      in case get_collection client collection_name of
           Inr c \<Rightarrow>
             (\<lparr>st_collection_name = collection_name, st_chunk_count = collection_count c,
               st_exists = True, st_error = None\<rparr>, client)
         | Inl e \<Rightarrow>
             (\<lparr>st_collection_name = collection_name, st_chunk_count = 0,
               st_exists = False, st_error = Some e\<rparr>, client))"

subsection \<open>The contract of the search, and a sample environment\<close>

text \<open>
  A search for \<open>n\<close> results answers with at most \<open>n\<close> hits for each query embedding (and so
  fails or answers with none for \<open>n \<le> 0\<close>).
\<close>

definition query_respects_n_results :: "deps \<Rightarrow> bool" where
  "query_respects_n_results d \<longleftrightarrow>
     (\<forall>c q n results. chroma_query d c q n = Inr results \<longrightarrow>
        (\<forall>ids \<in> set (qr_ids results). int (length ids) \<le> n))"

text \<open>
  A small environment on which the functions are run: a model with two unit vectors, a
  search by cosine distance, a splitter that keeps a non-empty text whole, a sort that
  leaves a list with a NaN key as it is, and a store that holds two chunks for
  document 1.
\<close>

definition demo_encode :: "string list \<Rightarrow> error + vec list" where
  "demo_encode texts =
     Inr (map (\<lambda>t. if t \<noteq> [] \<and> hd t = CHR ''a'' then [1, 0] else [0, 1]) texts)"

definition demo_distance :: "vec \<Rightarrow> vec \<Rightarrow> real" where
  "demo_distance q e = 1 - sum_list (map (\<lambda>(x, y). x * y) (zip q e))"

definition demo_query :: "collection \<Rightarrow> vec \<Rightarrow> int \<Rightarrow> error + query_result" where
  "demo_query c q n =
     (if n \<le> 0 then Inl ValueError
      else
        let hits = take (nat n)
                     (sort_key (\<lambda>e. demo_distance q (entry_embedding e)) (coll_entries c))
        in Inr \<lparr>qr_ids = [map entry_id hits],
                qr_documents = [map entry_document hits],
                qr_metadatas = [map entry_metadata hits],
                qr_distances = [map (\<lambda>e. demo_distance q (entry_embedding e)) hits]\<rparr>)"

definition demo_split_text :: "string \<Rightarrow> string list" where
  "demo_split_text text = (if text = [] then [] else [text])"

definition demo_deps :: deps where
  "demo_deps = \<lparr>model_encode = demo_encode, splitter_split_text = demo_split_text,
                 chroma_query = demo_query, chroma_on_existing = SkipExisting,
                 sort_nan_keys = (\<lambda>similarities. similarities)\<rparr>"

definition demo_collection :: collection where
  "demo_collection =
     \<lparr>coll_name = ''doc_1'', coll_metadata = [''doc_id'' \<mapsto> MStr ''1''],
      coll_entries =
        [\<lparr>entry_id = ''chunk_0'', entry_embedding = [1, 0], entry_document = ''alpha'',
          entry_metadata = Map.empty\<rparr>,
         \<lparr>entry_id = ''chunk_1'', entry_embedding = [0, 1], entry_document = ''beta'',
          entry_metadata = Map.empty\<rparr>]\<rparr>"

definition demo_client :: chroma_client where
  "demo_client = [''doc_1'' \<mapsto> demo_collection]"

text \<open>The embeddings of the six variations of the query \<^verbatim>\<open>a\<close>, and the hits of its search.\<close>

definition demo_embeddings :: "vec list" where
  "demo_embeddings = [[1, 0], [0, 1], [0, 1], [0, 1], [0, 1], [0, 1]]"

definition demo_hits :: "chunk list" where
  "demo_hits =
     [\<lparr>r_id = ''chunk_0'', r_text = ''alpha'', r_metadata = Map.empty, r_distance = 0,
       r_query_variation = 0, r_similarity = None\<rparr>,
      \<lparr>r_id = ''chunk_1'', r_text = ''beta'', r_metadata = Map.empty, r_distance = 0,
       r_query_variation = 1, r_similarity = None\<rparr>]"

text \<open>
  Variants of the sample environment: a model that always fails, a search that fails
  for the embedding \<open>[0, 1]\<close>, and a store that rejects an id it already holds.
\<close>

definition failing_encode_deps :: deps where
  "failing_encode_deps = demo_deps\<lparr>model_encode := (\<lambda>texts. Inl ModelError)\<rparr>"

definition flaky_query :: "collection \<Rightarrow> vec \<Rightarrow> int \<Rightarrow> error + query_result" where
  "flaky_query c q n = (if q = [0, 1] then Inl BackendError else demo_query c q n)"

definition flaky_deps :: deps where
  "flaky_deps = demo_deps\<lparr>chroma_query := flaky_query\<rparr>"

definition reject_deps :: deps where
  "reject_deps = demo_deps\<lparr>chroma_on_existing := RejectExisting\<rparr>"

text \<open>The two hits of the sample search, as \<^verbatim>\<open>rerank_chunks\<close> scores them for the query \<^verbatim>\<open>a\<close>.\<close>

definition demo_reranked :: "chunk list" where
  "demo_reranked =
     [\<lparr>r_id = ''chunk_0'', r_text = ''alpha'', r_metadata = Map.empty, r_distance = 0,
       r_query_variation = 0, r_similarity = Some (Number 1)\<rparr>,
      \<lparr>r_id = ''chunk_1'', r_text = ''beta'', r_metadata = Map.empty, r_distance = 0,
       r_query_variation = 1, r_similarity = Some (Number 0)\<rparr>]"






text \<open>The hits of the sample search when only the first variation is answered.\<close>

definition flaky_hits :: "chunk list" where
  "flaky_hits =
     [\<lparr>r_id = ''chunk_0'', r_text = ''alpha'', r_metadata = Map.empty, r_distance = 0,
       r_query_variation = 0, r_similarity = None\<rparr>,
      \<lparr>r_id = ''chunk_1'', r_text = ''beta'', r_metadata = Map.empty, r_distance = 1,
       r_query_variation = 0, r_similarity = None\<rparr>]"

text \<open>The ids and texts that the collection of a document holds, in insertion order.\<close>

definition stored_chunks :: "chroma_client \<Rightarrow> int \<Rightarrow> (string \<times> string) list" where
  "stored_chunks client doc_id =
     (case get_collection client (collection_name_of doc_id) of
        Inl e \<Rightarrow> []
      | Inr c \<Rightarrow> map (\<lambda>e. (entry_id e, entry_document e)) (coll_entries c))"

text \<open>Two calls of \<^verbatim>\<open>store_document\<close> for document 1 on an empty store.\<close>

definition after_two_stores ::
  "deps \<Rightarrow> (error + string) \<times> (error + string) \<times> chroma_client" where
  "after_two_stores d =
     (let (r1, client1) = store_document d Map.empty 1 ''alpha'' None;
          (r2, client2) = store_document d client1 1 ''beta'' None
      in (r1, r2, client2))"

section \<open>Properties\<close>

subsection \<open>Evaluation of the sample environment\<close>

lemma collection_name_of_1: "collection_name_of 1 = ''doc_1''"
  by (simp add: collection_name_of_def py_str_def str_nat.simps)

lemma chunk_ids_1: "chunk_ids (Suc 0) = [''chunk_0'']"
  by (simp add: chunk_ids_def py_str_def str_nat.simps)

lemma norm_vec_unit: "norm_vec [1, 0] = 1" "norm_vec [0, 1] = 1"
  by (simp_all add: norm_vec_def)

lemmas demo_simps = demo_client_def get_collection_def
  create_embeddings_def demo_deps_def demo_encode_def expand_query_def py_slice_to_def
  enumerate_py_def all_results_def search_variation_def demo_query_def
  demo_collection_def demo_distance_def result_row_def bind_err_def py_index_def
  upt_rec Let_def

lemmas demo_rerank_simps = rerank_chunks_def demo_deps_def demo_encode_def
  bind_err_def py_index_def enumerate_py_def upt_rec cosine_similarity_def dot_def
  norm_vec_unit sort_similarities_def sort_reverse_def py_slice_to_def

lemma demo_query_respects: "query_respects_n_results demo_deps"
  by (auto simp: query_respects_n_results_def demo_deps_def demo_query_def Let_def
           split: if_splits)

lemma demo_get_collection:
  "get_collection demo_client (collection_name_of 1) = Inr demo_collection"
  by (simp add: collection_name_of_1 demo_client_def get_collection_def)

lemma demo_create_embeddings:
  "create_embeddings demo_deps (expand_query ''a'') = Inr demo_embeddings"
  by (simp add: demo_simps demo_embeddings_def)

lemma demo_hybrid_search:
  "hybrid_search demo_deps demo_client 1 ''a'' 5 = Inr demo_hits"
  by (simp add: hybrid_search_def collection_name_of_1 demo_simps demo_hits_def)

lemma demo_hybrid_search_20:
  "hybrid_search demo_deps demo_client 1 ''a'' 20 = Inr demo_hits"
  by (simp add: hybrid_search_def collection_name_of_1 demo_simps demo_hits_def)

lemma demo_rerank_3: "rerank_chunks demo_deps ''a'' demo_hits 3 = Inr demo_reranked"
  by (simp add: demo_rerank_simps demo_hits_def demo_reranked_def)

lemma demo_retrieve_value:
  "retrieve_context demo_deps demo_client 1 ''a'' ''fact'' = Inr demo_reranked"
  by (simp add: retrieve_context_def demo_hybrid_search_20 demo_rerank_3)
    (simp add: demo_hits_def)

lemma flaky_embeddings:
  "create_embeddings flaky_deps (expand_query ''a'') = Inr demo_embeddings"
  by (simp add: flaky_deps_def demo_simps demo_embeddings_def)

lemma flaky_filter:
  "filter (\<lambda>iq. \<not> isl (chroma_query flaky_deps demo_collection (snd iq) (min 5 10)))
          (enumerate_py demo_embeddings) = [(0, [1, 0])]"
  by (simp add: flaky_deps_def flaky_query_def demo_deps_def demo_query_def enumerate_py_def
        upt_rec Let_def demo_embeddings_def)

lemma flaky_merge:
  "unique_results {} [] 5
     (sort_key r_distance (all_results flaky_deps demo_collection 5 [(0, [1, 0])])) = flaky_hits"
  by (simp add: flaky_deps_def flaky_query_def demo_simps flaky_hits_def)

lemma flaky_fails:
  "isl (chroma_query flaky_deps demo_collection [0, 1] (min 5 10))"
  by (simp add: flaky_deps_def flaky_query_def)

lemma failing_embeddings:
  "create_embeddings failing_encode_deps (expand_query ''a'') = Inl ModelError"
  by (simp add: create_embeddings_def failing_encode_deps_def demo_deps_def)

lemma flaky_embeddings_b:
  "create_embeddings flaky_deps (expand_query ''b'') = Inr (replicate 6 [0, 1])"
  by (simp add: flaky_deps_def demo_simps numeral_eq_Suc)

lemma flaky_fails_all:
  "\<forall>q \<in> set (replicate 6 [0, 1]). isl (chroma_query flaky_deps demo_collection q (min 5 10))"
  by (simp add: flaky_deps_def flaky_query_def)

lemma demo_chunk_empty: "chunk_document demo_deps '''' = []"
  by (simp add: chunk_document_def demo_deps_def demo_split_text_def)

subsection \<open>Query expansion\<close>

text \<open>
  C7: \<^verbatim>\<open>expand_query\<close> returns exactly six strings: the query itself, then the five
  fixed templates around it. It takes the query alone (no model, no store), so equal
  queries give equal lists.
\<close>

theorem expand_query_six:
  "expand_query q =
     [q, ''What is '' @ q @ ''?'', ''Explain '' @ q, ''Information about '' @ q,
      ''Details regarding '' @ q, ''Can you tell me about '' @ q @ ''?'']
   \<and> length (expand_query q) = 6 \<and> expand_query q ! 0 = q"
  by (simp add: expand_query_def py_slice_to_def)

subsection \<open>The deduplication loop\<close>

lemma unique_results_distinct:
  "seen = set (map r_id uniq) \<Longrightarrow> distinct (map r_id uniq) \<Longrightarrow>
   distinct (map r_id (unique_results seen uniq k rs))"
  by (induction seen uniq k rs rule: unique_results.induct) auto

lemma unique_results_length:
  "int (length uniq) < k \<Longrightarrow> int (length (unique_results seen uniq k rs)) \<le> k"
  by (induction seen uniq k rs rule: unique_results.induct) auto

lemma unique_results_subset:
  "set (unique_results seen uniq k rs) \<subseteq> set uniq \<union> set rs"
  by (induction seen uniq k rs rule: unique_results.induct) auto

lemma unique_results_sorted:
  "sorted (map r_distance (uniq @ rs)) \<Longrightarrow>
   sorted (map r_distance (unique_results seen uniq k rs))"
proof (induction seen uniq k rs rule: unique_results.induct)
  case (1 seen uniq k)
  then show ?case by simp
next
  case (2 seen uniq k r rest)
  have a: "sorted (map r_distance ((uniq @ [r]) @ rest))" using 2(3) by simp
  have b: "sorted (map r_distance (uniq @ rest))"
    using 2(3) by (auto simp: sorted_append)
  have c: "sorted (map r_distance (uniq @ [r]))"
    using 2(3) by (auto simp: sorted_append)
  show ?case using 2(1,2) a b c by auto
qed

lemma unique_results_least:
  assumes "sorted (map r_distance rs)"
    and "seen = set (map r_id uniq)"
    and "\<forall>a \<in> A. r_id a \<in> seen \<or> a \<in> set rs"
    and "\<forall>u \<in> set uniq. \<forall>a \<in> A. r_id a = r_id u \<longrightarrow> r_distance u \<le> r_distance a"
  shows "\<forall>u \<in> set (unique_results seen uniq k rs).
           \<forall>a \<in> A. r_id a = r_id u \<longrightarrow> r_distance u \<le> r_distance a"
  using assms
proof (induction seen uniq k rs rule: unique_results.induct)
  case (1 seen uniq k)
  then show ?case by simp
next
  case (2 seen uniq k r rest)
  have srest: "sorted (map r_distance rest)" using 2(3) by simp
  show ?case
  proof (cases "r_id r \<in> seen")
    case True
    have cover: "\<forall>a \<in> A. r_id a \<in> seen \<or> a \<in> set rest"
      using 2(5) True by auto
    show ?thesis using 2(2)[OF _ srest 2(4) cover 2(6)] True by simp
  next
    case False
    have rmin: "\<forall>a \<in> A. r_id a = r_id r \<longrightarrow> r_distance r \<le> r_distance a"
    proof (intro ballI impI)
      fix a assume "a \<in> A" "r_id a = r_id r"
      then have "a \<in> set (r # rest)" using 2(5) False by auto
      then show "r_distance r \<le> r_distance a" using 2(3) by auto
    qed
    have least': "\<forall>u \<in> set (uniq @ [r]). \<forall>a \<in> A. r_id a = r_id u \<longrightarrow> r_distance u \<le> r_distance a"
      using 2(6) rmin by auto
    show ?thesis
    proof (cases "k \<le> int (length (uniq @ [r]))")
      case True
      then show ?thesis using False least' by simp
    next
      case nk: False
      have seen': "insert (r_id r) seen = set (map r_id (uniq @ [r]))"
        using 2(4) by simp
      have cover: "\<forall>a \<in> A. r_id a \<in> insert (r_id r) seen \<or> a \<in> set rest"
        using 2(5) by auto
      show ?thesis using 2(1)[OF False nk srest seen' cover least'] False nk by simp
    qed
  qed
qed

lemma search_variation_nonpositive:
  assumes "query_respects_n_results d" "top_k \<le> 0"
  shows "search_variation d c top_k iq = []"
proof (cases "chroma_query d c (snd iq) (min top_k 10)")
  case (Inl e)
  then show ?thesis by (simp add: search_variation_def)
next
  case (Inr results)
  show ?thesis
  proof (cases "qr_ids results = []")
    case True
    then show ?thesis using Inr by (simp add: search_variation_def)
  next
    case False
    then have "hd (qr_ids results) \<in> set (qr_ids results)" by simp
    then have "int (length (hd (qr_ids results))) \<le> min top_k 10"
      using assms(1) Inr unfolding query_respects_n_results_def by blast
    then have "int (length (hd (qr_ids results))) \<le> 0" using assms(2) by linarith
    then have "hd (qr_ids results) = []" by simp
    then show ?thesis using Inr False by (simp add: search_variation_def)
  qed
qed

lemma all_results_nonpositive:
  assumes "query_respects_n_results d" "top_k \<le> 0"
  shows "all_results d c top_k iqs = []"
  using search_variation_nonpositive[OF assms] by (simp add: all_results_def)

lemma unique_results_bound:
  assumes "0 < top_k \<or> rs = []"
  shows "length (unique_results {} [] top_k rs) \<le> nat top_k"
proof (cases "0 < top_k")
  case True
  then have "int (length (unique_results {} [] top_k rs)) \<le> top_k"
    by (intro unique_results_length) simp
  then show ?thesis by linarith
next
  case False
  then show ?thesis using assms by simp
qed

text \<open>
  C1: the list that \<^verbatim>\<open>hybrid_search\<close> returns has no chunk id twice and is sorted by
  ascending distance; each element carries the least distance among all the rows of its
  chunk id that the query variations have produced. It has at most \<open>top_k\<close> elements:
  for \<open>top_k > 0\<close> by the test that ends the loop, and for \<open>top_k \<le> 0\<close> it is empty,
  given that the search returns at most the number of hits it is asked for.
\<close>

theorem hybrid_search_dedup:
  assumes "hybrid_search d client doc_id query top_k = Inr rs"
  shows "distinct (map r_id rs) \<and> sorted (map r_distance rs) \<and>
         (0 < top_k \<or> query_respects_n_results d \<longrightarrow> length rs \<le> nat top_k) \<and>
         (\<forall>c qes. get_collection client (collection_name_of doc_id) = Inr c \<longrightarrow>
                  create_embeddings d (expand_query query) = Inr qes \<longrightarrow>
            (\<forall>r \<in> set rs.
               r_distance r =
                 Min (r_distance ` {a \<in> set (all_results d c top_k (enumerate_py qes)).
                                     r_id a = r_id r})))"
proof (cases "get_collection client (collection_name_of doc_id)")
  case (Inl e)
  then show ?thesis using assms by (auto simp: hybrid_search_def)
next
  case c: (Inr c)
  show ?thesis
  proof (cases "create_embeddings d (expand_query query)")
    case (Inl e)
    then show ?thesis using assms c by (simp add: hybrid_search_def)
  next
    case (Inr qes)
    define merged where "merged = all_results d c top_k (enumerate_py qes)"
    have rs: "rs = unique_results {} [] top_k (sort_key r_distance merged)"
      using assms c Inr by (simp add: hybrid_search_def merged_def)
    have d1: "distinct (map r_id rs)"
      unfolding rs by (rule unique_results_distinct) simp_all
    have d2: "sorted (map r_distance rs)"
      unfolding rs by (rule unique_results_sorted) simp
    have d3: "length rs \<le> nat top_k" if cap: "0 < top_k \<or> query_respects_n_results d"
    proof -
      have "0 < top_k \<or> sort_key r_distance merged = []"
      proof (cases "0 < top_k")
        case True
        then show ?thesis by simp
      next
        case False
        then have "query_respects_n_results d" and "top_k \<le> 0" using cap by auto
        then have "merged = []" unfolding merged_def by (rule all_results_nonpositive)
        then show ?thesis by simp
      qed
      then show ?thesis unfolding rs by (rule unique_results_bound)
    qed
    have least: "\<forall>u \<in> set rs. \<forall>a \<in> set merged. r_id a = r_id u \<longrightarrow> r_distance u \<le> r_distance a"
      unfolding rs by (rule unique_results_least) simp_all
    have mem: "set rs \<subseteq> set merged"
      using unique_results_subset[of "{}" "[]" top_k "sort_key r_distance merged"]
      unfolding rs by simp
    have d4: "\<forall>r \<in> set rs. r_distance r = Min (r_distance ` {a \<in> set merged. r_id a = r_id r})"
    proof
      fix r assume r: "r \<in> set rs"
      have "Min (r_distance ` {a \<in> set merged. r_id a = r_id r}) = r_distance r"
      proof (rule Min_eqI)
        show "finite (r_distance ` {a \<in> set merged. r_id a = r_id r})" by simp
        show "\<And>y. y \<in> r_distance ` {a \<in> set merged. r_id a = r_id r} \<Longrightarrow> r_distance r \<le> y"
          using least r by auto
        show "r_distance r \<in> r_distance ` {a \<in> set merged. r_id a = r_id r}"
          using mem r by auto
      qed
      then show "r_distance r = Min (r_distance ` {a \<in> set merged. r_id a = r_id r})" by simp
    qed
    show ?thesis using d1 d2 d3 d4 c Inr by (simp add: merged_def)
  qed
qed

theorem hybrid_search_dedup_witness:
  "hybrid_search demo_deps demo_client 1 ''a'' 5 = Inr demo_hits \<and>
   query_respects_n_results demo_deps \<and>
   get_collection demo_client (collection_name_of 1) = Inr demo_collection \<and>
   create_embeddings demo_deps (expand_query ''a'') = Inr demo_embeddings \<and>
   distinct (map r_id demo_hits) \<and> sorted (map r_distance demo_hits) \<and>
   length demo_hits \<le> nat 5 \<and>
   r_distance (hd demo_hits) =
     Min (r_distance ` {a \<in> set (all_results demo_deps demo_collection 5
                                  (enumerate_py demo_embeddings)).
                         r_id a = r_id (hd demo_hits)})"
proof -
  have "hd demo_hits \<in> set demo_hits" by (simp add: demo_hits_def)
  then show ?thesis
    using hybrid_search_dedup [OF demo_hybrid_search]
      demo_query_respects demo_hybrid_search demo_get_collection demo_create_embeddings
    by blast
qed

subsection \<open>A document without an index\<close>

text \<open>
  C4: when the store has no collection for the document, \<^verbatim>\<open>hybrid_search\<close> and
  \<^verbatim>\<open>retrieve_context\<close> return the empty list and raise nothing, whatever the query,
  the number of results asked for, the intent, the model and the search.
\<close>

theorem missing_index_empty:
  assumes "client (collection_name_of doc_id) = None"
  shows "hybrid_search d client doc_id query top_k = Inr [] \<and>
         retrieve_context d client doc_id query intent = Inr []"
  using assms by (simp add: hybrid_search_def retrieve_context_def get_collection_def)

theorem missing_index_empty_witness:
  "Map.empty (collection_name_of 7) = (None :: collection option) \<and>
   hybrid_search failing_encode_deps Map.empty 7 ''q'' 20 = Inr [] \<and>
   retrieve_context failing_encode_deps Map.empty 7 ''q'' ''fact'' = Inr []"
  using missing_index_empty [of Map.empty 7 failing_encode_deps "''q''" 20 "''fact''"]
  by simp

subsection \<open>Failures during the search\<close>

lemma search_variation_failed:
  "isl (chroma_query d c (snd iq) (min top_k 10)) \<Longrightarrow> search_variation d c top_k iq = []"
  by (cases "chroma_query d c (snd iq) (min top_k 10)") (simp_all add: search_variation_def)

lemma all_results_skip_failed:
  "all_results d c top_k iqs =
   all_results d c top_k
     (filter (\<lambda>iq. \<not> isl (chroma_query d c (snd iq) (min top_k 10))) iqs)"
  by (induction iqs) (simp_all add: all_results_def search_variation_failed)

lemma all_results_all_failed:
  "\<forall>iq \<in> set iqs. isl (chroma_query d c (snd iq) (min top_k 10)) \<Longrightarrow>
   all_results d c top_k iqs = []"
  by (induction iqs) (simp_all add: all_results_def search_variation_failed)

text \<open>
  C5, as the code has it: the query variations are embedded in one call before the loop
  and outside its handler, so a failure of the model is raised by \<^verbatim>\<open>hybrid_search\<close>.
  Inside the loop, a variation whose search raises adds no row, and the result is the
  one computed from the variations whose search answers; when the search raises for
  every variation the result is the empty list.
\<close>

theorem hybrid_search_failures:
  assumes "get_collection client (collection_name_of doc_id) = Inr c"
  shows "(\<forall>e. create_embeddings d (expand_query query) = Inl e \<longrightarrow>
            hybrid_search d client doc_id query top_k = Inl e) \<and>
         (\<forall>qes. create_embeddings d (expand_query query) = Inr qes \<longrightarrow>
            hybrid_search d client doc_id query top_k =
              Inr (unique_results {} [] top_k
                     (sort_key r_distance
                        (all_results d c top_k
                           (filter (\<lambda>iq. \<not> isl (chroma_query d c (snd iq) (min top_k 10)))
                              (enumerate_py qes))))) \<and>
            ((\<forall>q \<in> set qes. isl (chroma_query d c q (min top_k 10))) \<longrightarrow>
               hybrid_search d client doc_id query top_k = Inr []))"
proof (intro conjI allI impI)
  fix e assume "create_embeddings d (expand_query query) = Inl e"
  then show "hybrid_search d client doc_id query top_k = Inl e"
    using assms by (simp add: hybrid_search_def)
next
  fix qes assume q: "create_embeddings d (expand_query query) = Inr qes"
  have hs: "hybrid_search d client doc_id query top_k =
      Inr (unique_results {} [] top_k
             (sort_key r_distance (all_results d c top_k (enumerate_py qes))))"
    using assms q by (simp add: hybrid_search_def)
  show "hybrid_search d client doc_id query top_k =
      Inr (unique_results {} [] top_k
             (sort_key r_distance
                (all_results d c top_k
                   (filter (\<lambda>iq. \<not> isl (chroma_query d c (snd iq) (min top_k 10)))
                      (enumerate_py qes)))))"
    unfolding hs using all_results_skip_failed[of d c top_k "enumerate_py qes"] by simp
  assume all: "\<forall>q \<in> set qes. isl (chroma_query d c q (min top_k 10))"
  have "\<forall>iq \<in> set (enumerate_py qes). isl (chroma_query d c (snd iq) (min top_k 10))"
    using all by (auto simp: enumerate_py_def dest: set_zip_rightD)
  then have "all_results d c top_k (enumerate_py qes) = []"
    by (rule all_results_all_failed)
  then show "hybrid_search d client doc_id query top_k = Inr []"
    unfolding hs by simp
qed

theorem hybrid_search_failures_witness:
  "get_collection demo_client (collection_name_of 1) = Inr demo_collection \<and>
   create_embeddings flaky_deps (expand_query ''a'') = Inr demo_embeddings \<and>
   isl (chroma_query flaky_deps demo_collection [0, 1] (min 5 10)) \<and>
   hybrid_search flaky_deps demo_client 1 ''a'' 5 = Inr flaky_hits \<and>
   create_embeddings flaky_deps (expand_query ''b'') = Inr (replicate 6 [0, 1]) \<and>
   hybrid_search flaky_deps demo_client 1 ''b'' 5 = Inr [] \<and>
   create_embeddings failing_encode_deps (expand_query ''a'') = Inl ModelError \<and>
   hybrid_search failing_encode_deps demo_client 1 ''a'' 5 = Inl ModelError"
proof -
  have a: "hybrid_search flaky_deps demo_client 1 ''a'' 5 = Inr flaky_hits"
    using hybrid_search_failures [OF demo_get_collection, of flaky_deps "''a''" 5]
      flaky_embeddings flaky_filter flaky_merge
    by simp
  have b: "hybrid_search flaky_deps demo_client 1 ''b'' 5 = Inr []"
    using hybrid_search_failures [OF demo_get_collection, of flaky_deps "''b''" 5]
      flaky_embeddings_b flaky_fails_all
    by blast
  have c: "hybrid_search failing_encode_deps demo_client 1 ''a'' 5 = Inl ModelError"
    using hybrid_search_failures [OF demo_get_collection, of failing_encode_deps "''a''" 5]
      failing_embeddings
    by blast
  show ?thesis
    using a b c demo_get_collection flaky_embeddings flaky_fails flaky_embeddings_b
      failing_embeddings
    by blast
qed

text \<open>
  C5 as stated fails: with a model that raises, every variation's embedding step fails,
  and \<^verbatim>\<open>hybrid_search\<close> raises instead of returning the empty list.
\<close>

theorem hybrid_search_embed_failure_raises:
  "hybrid_search failing_encode_deps demo_client 1 ''a'' 20 = Inl ModelError \<and>
   hybrid_search failing_encode_deps demo_client 1 ''a'' 20 \<noteq> Inr []"
  by (simp add: hybrid_search_def collection_name_of_1 demo_client_def get_collection_def
      create_embeddings_def failing_encode_deps_def demo_deps_def)

subsection \<open>Reranking\<close>

lemma py_slice_to_length:
  "0 \<le> k \<Longrightarrow> length (py_slice_to xs k) \<le> nat k"
  by (simp add: py_slice_to_def)






text \<open>A vector of norm 0 is all zeros, so its dot product with any vector is 0.\<close>

lemma sum_squares_zero:
  "sum_list (map (\<lambda>x. x * x) (a :: real list)) = 0 \<Longrightarrow> \<forall>x \<in> set a. x = 0"
proof (induction a)
  case Nil
  then show ?case by simp
next
  case (Cons y ys)
  have nn: "0 \<le> sum_list (map (\<lambda>x. x * x) ys)"
    by (rule sum_list_nonneg) auto
  have "y * y + sum_list (map (\<lambda>x. x * x) ys) = 0" using Cons.prems by simp
  moreover have "0 \<le> y * y" by simp
  ultimately have "y * y = 0" and "sum_list (map (\<lambda>x. x * x) ys) = 0"
    using nn by linarith+
  then show ?case using Cons.IH by simp
qed

lemma norm_vec_zero: "norm_vec a = 0 \<Longrightarrow> \<forall>x \<in> set a. x = 0"
proof -
  assume "norm_vec a = 0"
  then have "sum_list (map (\<lambda>x. x * x) a) = 0" by (simp add: norm_vec_def)
  then show ?thesis by (rule sum_squares_zero)
qed

lemma dot_zeros_left:
  "\<forall>x \<in> set q. x = (0::real) \<Longrightarrow> sum_list (map (\<lambda>(x, y). x * y) (zip q c)) = 0"
proof (induction q arbitrary: c)
  case Nil
  then show ?case by simp
next
  case (Cons x xs)
  then show ?case by (cases c) simp_all
qed

lemma dot_zeros_right:
  "\<forall>y \<in> set c. y = (0::real) \<Longrightarrow> sum_list (map (\<lambda>(x, y). x * y) (zip q c)) = 0"
proof (induction c arbitrary: q)
  case Nil
  then show ?case by simp
next
  case (Cons y ys)
  then show ?case by (cases q) simp_all
qed

lemma dot_zero_norm:
  assumes "dot q c = Inr p" and "norm_vec q * norm_vec c = 0"
  shows "p = 0"
proof -
  have p: "p = sum_list (map (\<lambda>(x, y). x * y) (zip q c))"
    using assms(1) by (simp add: dot_def split: if_splits)
  have "norm_vec q = 0 \<or> norm_vec c = 0" using assms(2) by simp
  then show ?thesis
  proof
    assume "norm_vec q = 0"
    then show ?thesis unfolding p by (intro dot_zeros_left norm_vec_zero)
  next
    assume "norm_vec c = 0"
    then show ?thesis unfolding p by (intro dot_zeros_right norm_vec_zero)
  qed
qed



lemma collect_chunks_length:
  "collect_chunks chunks xs = Inr rs \<Longrightarrow> length rs = length xs"
proof (induction xs arbitrary: rs)
  case Nil
  then show ?case by simp
next
  case (Cons x xs)
  obtain i s where x: "x = (i, s)" by (cases x)
  from Cons.prems x obtain c cs where
    "py_index chunks i = Inr c" "collect_chunks chunks xs = Inr cs" "rs = c # cs"
    by (auto simp: bind_err_def split: sum.splits)
  then show ?case using Cons.IH by simp
qed





lemma rerank_chunks_steps:
  assumes "rerank_chunks d query chunks top_k = Inr rs" and "chunks \<noteq> []"
  shows "\<exists>qes ces scored sims.
           model_encode d [query] = Inr qes \<and> qes \<noteq> [] \<and>
           model_encode d (map r_text chunks) = Inr ces \<and>
           score_chunks (hd qes) chunks [] (enumerate_py ces) = Inr (scored, sims) \<and>
           collect_chunks scored (py_slice_to (sort_similarities d sims) top_k) = Inr rs"
proof -
  from assms obtain qes where qes: "model_encode d [query] = Inr qes"
    by (cases "model_encode d [query]") (auto simp: rerank_chunks_def bind_err_def)
  from assms qes have ne: "qes \<noteq> []"
    by (auto simp: rerank_chunks_def bind_err_def py_index_def)
  then have q0: "py_index qes 0 = Inr (hd qes)"
    by (simp add: py_index_def hd_conv_nth)
  from assms qes q0 obtain ces where ces: "model_encode d (map r_text chunks) = Inr ces"
    by (cases "model_encode d (map r_text chunks)") (auto simp: rerank_chunks_def bind_err_def)
  from assms qes q0 ces obtain scored sims where
    sc: "score_chunks (hd qes) chunks [] (enumerate_py ces) = Inr (scored, sims)"
    by (cases "score_chunks (hd qes) chunks [] (enumerate_py ces)")
       (auto simp: rerank_chunks_def bind_err_def)
  have "collect_chunks scored (py_slice_to (sort_similarities d sims) top_k) = Inr rs"
    using assms qes q0 ces sc by (simp add: rerank_chunks_def bind_err_def)
  then show ?thesis using qes ne ces sc by blast
qed

lemma rerank_chunks_length:
  assumes "rerank_chunks d query chunks top_k = Inr rs" and "0 \<le> top_k"
  shows "length rs \<le> nat top_k"
proof (cases "chunks = []")
  case True
  then show ?thesis using assms by (auto simp: rerank_chunks_def)
next
  case False
  from rerank_chunks_steps[OF assms(1) False] obtain scored sims where
    "collect_chunks scored (py_slice_to (sort_similarities d sims) top_k) = Inr rs"
    by blast
  then have "length rs = length (py_slice_to (sort_similarities d sims) top_k)"
    by (rule collect_chunks_length)
  then show ?thesis using py_slice_to_length[OF assms(2)] by simp
qed





subsection \<open>Retrieval by intent\<close>

lemma retrieve_context_length:
  assumes "retrieve_context d client doc_id query intent = Inr rs"
  shows "length rs \<le> (if intent = ''document'' then 5 else 3)"
proof -
  obtain chunks where "hybrid_search d client doc_id query 20 = Inr chunks"
    using assms by (cases "hybrid_search d client doc_id query 20")
      (auto simp: retrieve_context_def)
  then show ?thesis
    using assms rerank_chunks_length[of d query chunks 5 rs]
      rerank_chunks_length[of d query chunks 3 rs]
    by (auto simp: retrieve_context_def split: if_splits)
qed

text \<open>
  C2: \<^verbatim>\<open>retrieve_context\<close> returns at most 5 chunks for the intent \<^verbatim>\<open>document\<close>, at
  most 3 for \<^verbatim>\<open>section\<close> and for \<^verbatim>\<open>fact\<close>; for any other intent it does exactly what
  it does for \<^verbatim>\<open>fact\<close>, errors included.
\<close>

theorem retrieve_context_depth:
  "(case retrieve_context d client doc_id query ''document'' of
      Inl e \<Rightarrow> True | Inr rs \<Rightarrow> length rs \<le> 5) \<and>
   (case retrieve_context d client doc_id query ''section'' of
      Inl e \<Rightarrow> True | Inr rs \<Rightarrow> length rs \<le> 3) \<and>
   (case retrieve_context d client doc_id query ''fact'' of
      Inl e \<Rightarrow> True | Inr rs \<Rightarrow> length rs \<le> 3) \<and>
   (intent \<noteq> ''document'' \<and> intent \<noteq> ''section'' \<longrightarrow>
      retrieve_context d client doc_id query intent =
      retrieve_context d client doc_id query ''fact'')"
proof -
  have a: "case retrieve_context d client doc_id query ''document'' of
      Inl e \<Rightarrow> True | Inr rs \<Rightarrow> length rs \<le> 5"
    using retrieve_context_length[of d client doc_id query "''document''"]
    by (simp split: sum.split)
  have b: "case retrieve_context d client doc_id query ''section'' of
      Inl e \<Rightarrow> True | Inr rs \<Rightarrow> length rs \<le> 3"
    using retrieve_context_length[of d client doc_id query "''section''"]
    by (simp split: sum.split)
  have c: "case retrieve_context d client doc_id query ''fact'' of
      Inl e \<Rightarrow> True | Inr rs \<Rightarrow> length rs \<le> 3"
    using retrieve_context_length[of d client doc_id query "''fact''"]
    by (simp split: sum.split)
  have e: "intent \<noteq> ''document'' \<and> intent \<noteq> ''section'' \<longrightarrow>
      retrieve_context d client doc_id query intent =
      retrieve_context d client doc_id query ''fact''"
    by (auto simp: retrieve_context_def split: sum.splits)
  show ?thesis using a b c e by blast
qed

theorem retrieve_context_depth_witness:
  "''summary'' \<noteq> ''document'' \<and> ''summary'' \<noteq> ''section'' \<and>
   retrieve_context demo_deps demo_client 1 ''a'' ''summary'' = Inr demo_reranked \<and>
   length demo_reranked \<le> 3"
  using retrieve_context_depth [of demo_deps demo_client 1 "''a''" "''summary''"]
    demo_retrieve_value
  by simp

subsection \<open>Statistics and storing\<close>

text \<open>
  C9: \<^verbatim>\<open>get_collection_stats\<close> leaves the store as it is, and reports the number of
  records of the document's collection, or that there is none (with count 0).
\<close>

theorem get_collection_stats_readonly:
  "snd (get_collection_stats client doc_id) = client \<and>
   fst (get_collection_stats client doc_id) =
     (case client (collection_name_of doc_id) of
        None \<Rightarrow>
          \<lparr>st_collection_name = collection_name_of doc_id, st_chunk_count = 0,
           st_exists = False, st_error = Some NotFoundError\<rparr>
      | Some c \<Rightarrow>
          \<lparr>st_collection_name = collection_name_of doc_id,
           st_chunk_count = length (coll_entries c),
           st_exists = True, st_error = None\<rparr>)"
  by (simp add: get_collection_stats_def get_collection_def collection_count_def Let_def
           split: option.split)

text \<open>
  C10: on a document without an index, a text that the splitter turns into no chunk
  still makes \<^verbatim>\<open>store_document\<close> create the collection and return its name; the
  statistics then report an existing collection of 0 chunks.
\<close>

theorem store_document_no_chunks:
  assumes "client (collection_name_of doc_id) = None"
    and "chunk_document d text = []"
  shows "store_document d client doc_id text md =
           (Inr (collection_name_of doc_id),
            client(collection_name_of doc_id \<mapsto>
              \<lparr>coll_name = collection_name_of doc_id,
               coll_metadata = [''doc_id'' \<mapsto> MStr (py_str doc_id)],
               coll_entries = []\<rparr>)) \<and>
         fst (get_collection_stats (snd (store_document d client doc_id text md)) doc_id) =
           \<lparr>st_collection_name = collection_name_of doc_id, st_chunk_count = 0,
            st_exists = True, st_error = None\<rparr>"
  using assms
  by (simp add: store_document_def get_collection_def create_collection_def
      get_collection_stats_def collection_count_def Let_def)

theorem store_document_no_chunks_witness:
  "Map.empty (collection_name_of 2) = (None :: collection option) \<and>
   chunk_document demo_deps '''' = [] \<and>
   fst (store_document demo_deps Map.empty 2 '''' None) = Inr (collection_name_of 2) \<and>
   fst (get_collection_stats (snd (store_document demo_deps Map.empty 2 '''' None)) 2) =
     \<lparr>st_collection_name = collection_name_of 2, st_chunk_count = 0,
      st_exists = True, st_error = None\<rparr>"
proof -
  have h1: "Map.empty (collection_name_of 2) = (None :: collection option)" by simp
  have h2: "chunk_document demo_deps '''' = []" by (rule demo_chunk_empty)
  from store_document_no_chunks [OF h1 h2, where md = None]
  have "fst (store_document demo_deps Map.empty 2 '''' None) = Inr (collection_name_of 2)"
    and "fst (get_collection_stats (snd (store_document demo_deps Map.empty 2 '''' None)) 2) =
     \<lparr>st_collection_name = collection_name_of 2, st_chunk_count = 0,
      st_exists = True, st_error = None\<rparr>"
    by (simp, blast)
  then show ?thesis using h1 h2 by blast
qed

text \<open>
  \<^verbatim>\<open>str\<close> is injective on the natural numbers, so the ids of one call are distinct, and
  the first call for a document stores every chunk under its own id.
\<close>

lemma digit_inj:
  "a < 10 \<Longrightarrow> b < 10 \<Longrightarrow> ''0123456789'' ! a = ''0123456789'' ! b \<Longrightarrow> a = b"
proof -
  assume a: "a < 10" and b: "b < 10" and eq: "''0123456789'' ! a = ''0123456789'' ! b"
  have "distinct ''0123456789''" by simp
  moreover have "a < length ''0123456789''" "b < length ''0123456789''" using a b by simp_all
  ultimately show "a = b" using eq by (simp only: nth_eq_iff_index_eq)
qed

lemma str_nat_nonempty: "str_nat n \<noteq> []"
  by (subst str_nat.simps) simp

lemma str_nat_inj: "str_nat n = str_nat m \<Longrightarrow> n = m"
proof (induction n arbitrary: m rule: str_nat.induct)
  case (1 n)
  show ?case
  proof (cases "n < 10")
    case n: True
    show ?thesis
    proof (cases "m < 10")
      case True
      then show ?thesis using 1(2) n digit_inj[of n m]
        by (simp add: str_nat.simps[of n] str_nat.simps[of m])
    next
      case False
      then show ?thesis using 1(2) n str_nat_nonempty[of "m div 10"]
        by (simp add: str_nat.simps[of n] str_nat.simps[of m])
    qed
  next
    case n: False
    show ?thesis
    proof (cases "m < 10")
      case True
      then show ?thesis using 1(2) n str_nat_nonempty[of "n div 10"]
        by (simp add: str_nat.simps[of n] str_nat.simps[of m])
    next
      case False
      then have eq: "str_nat (n div 10) = str_nat (m div 10)"
        and dg: "''0123456789'' ! (n mod 10) = ''0123456789'' ! (m mod 10)"
        using 1(2) n by (simp_all add: str_nat.simps[of n] str_nat.simps[of m])
      have "n div 10 = m div 10" using 1(1)[OF n eq] .
      moreover have "n mod 10 = m mod 10" using dg by (intro digit_inj) simp_all
      ultimately show ?thesis by (metis div_mult_mod_eq)
    qed
  qed
qed

lemma chunk_ids_distinct: "distinct (chunk_ids n)"
proof -
  have "inj_on (\<lambda>i. ''chunk_'' @ py_str (int i)) (set [0..<n])"
    by (rule inj_onI) (auto simp: py_str_def dest: str_nat_inj)
  then show ?thesis by (simp add: chunk_ids_def distinct_map)
qed

lemma make_entries_ids:
  "length embeddings = length ids \<Longrightarrow> length documents = length ids \<Longrightarrow>
   length metadatas = length ids \<Longrightarrow>
   map entry_id (make_entries ids embeddings documents metadatas) = ids"
proof -
  assume len: "length embeddings = length ids" "length documents = length ids"
    "length metadatas = length ids"
  have "map entry_id (make_entries ids embeddings documents metadatas) =
        map fst (zip ids (zip embeddings (zip documents metadatas)))"
    by (simp add: make_entries_def case_prod_unfold)
  also have "\<dots> = ids" using len by (simp add: map_fst_zip)
  finally show ?thesis .
qed

lemma store_document_first:
  assumes "client (collection_name_of doc_id) = None"
    and "create_embeddings d (chunk_document d text) = Inr embeddings"
    and "length embeddings = length (chunk_document d text)"
  shows "fst (store_document d client doc_id text md) = Inr (collection_name_of doc_id) \<and>
         stored_chunks (snd (store_document d client doc_id text md)) doc_id =
           zip (chunk_ids (length (chunk_document d text))) (chunk_document d text) \<and>
         distinct (map fst (stored_chunks (snd (store_document d client doc_id text md)) doc_id))"
proof -
  define n where "n = length (chunk_document d text)"
  have ids: "length (chunk_ids n) = n" by (simp add: chunk_ids_def)
  have mds: "length (chunk_metadatas doc_id md n) = n" by (simp add: chunk_metadatas_def)
  have z: "map (\<lambda>e. (entry_id e, entry_document e))
             (make_entries (chunk_ids n) embeddings (chunk_document d text)
                (chunk_metadatas doc_id md n)) = zip (chunk_ids n) (chunk_document d text)"
    using ids mds assms(3) unfolding n_def[symmetric]
    by (intro nth_equalityI) (simp_all add: make_entries_def)
  show ?thesis
  proof (cases "chunk_document d text = []")
    case True
    then show ?thesis using assms
      by (simp add: store_document_def Let_def get_collection_def create_collection_def
          stored_chunks_def)
  next
    case False
    then show ?thesis using assms ids mds z chunk_ids_distinct[of n]
      by (simp add: store_document_def Let_def get_collection_def create_collection_def
          stored_chunks_def collection_add_def n_def[symmetric] split: add_policy.split)
  qed
qed

text \<open>
  The ids of a call do not depend on what the collection holds: they start again at
  \<^verbatim>\<open>chunk_0\<close> in every call. A call on a collection that holds \<^verbatim>\<open>chunk_0\<close> therefore
  never adds all of its chunks.
\<close>

lemma chunk_ids_restart: "0 < n \<Longrightarrow> hd (chunk_ids n) = ''chunk_0''"
  by (simp add: chunk_ids_def upt_rec py_str_def str_nat.simps)

lemma chunk_ids_first: "0 < n \<Longrightarrow> ''chunk_0'' \<in> set (chunk_ids n)"
  using chunk_ids_restart[of n] by (cases "chunk_ids n") (auto simp: chunk_ids_def)

lemma collection_add_taken:
  assumes "collection_add pol c ids embeddings documents metadatas = Inr c'"
    and "i \<in> set ids" and "i \<in> entry_id ` set (coll_entries c)"
  shows "length (coll_entries c') < length (coll_entries c) + length ids"
proof -
  have len: "length embeddings = length ids" "length documents = length ids"
    "length metadatas = length ids"
    using assms(1) by (auto simp: collection_add_def split: if_splits)
  define new where "new = make_entries ids embeddings documents metadatas"
  have ids: "map entry_id new = ids" unfolding new_def using len by (rule make_entries_ids)
  then have n: "length new = length ids" by (metis length_map)
  show ?thesis
  proof (cases pol)
    case SkipExisting
    then have c': "coll_entries c' = coll_entries c @
        filter (\<lambda>e. entry_id e \<notin> set (map entry_id (coll_entries c))) new"
      using assms(1) len by (auto simp: collection_add_def new_def Let_def split: if_splits)
    obtain e where "e \<in> set new" "entry_id e = i"
      using assms(2) ids by (metis (no_types, lifting) imageE list.set_map)
    then have "\<exists>e \<in> set new. \<not> entry_id e \<notin> set (map entry_id (coll_entries c))"
      using assms(3) by auto
    then have "length (filter (\<lambda>e. entry_id e \<notin> set (map entry_id (coll_entries c))) new)
        < length new"
      by (metis length_filter_less)
    then show ?thesis using c' n by simp
  next
    case RejectExisting
    then show ?thesis using assms
      by (auto simp: collection_add_def Let_def split: if_splits)
  qed
qed

lemma store_document_again_drops:
  assumes "get_collection client (collection_name_of doc_id) = Inr c"
    and "''chunk_0'' \<in> entry_id ` set (coll_entries c)"
    and "chunk_document d text \<noteq> []"
  shows "st_chunk_count
           (fst (get_collection_stats (snd (store_document d client doc_id text md)) doc_id))
         < collection_count c + length (chunk_document d text)"
proof -
  define n where "n = length (chunk_document d text)"
  have pos: "0 < n" using assms(3) by (simp add: n_def)
  have c: "client (collection_name_of doc_id) = Some c"
    using assms(1) by (auto simp: get_collection_def split: option.splits)
  show ?thesis
  proof (cases "create_embeddings d (chunk_document d text)")
    case (Inl e)
    then show ?thesis using assms c pos
      by (simp add: store_document_def Let_def get_collection_stats_def get_collection_def
          collection_count_def n_def)
  next
    case emb: (Inr embeddings)
    show ?thesis
    proof (cases "collection_add (chroma_on_existing d) c (chunk_ids n) embeddings
                    (chunk_document d text) (chunk_metadatas doc_id md n)")
      case (Inl e)
      then show ?thesis using assms c pos emb
        by (simp add: store_document_def Let_def get_collection_stats_def get_collection_def
            collection_count_def n_def)
    next
      case (Inr c')
      have "length (coll_entries c') < length (coll_entries c) + length (chunk_ids n)"
        using Inr chunk_ids_first[OF pos] assms(2) by (rule collection_add_taken)
      moreover have "length (chunk_ids n) = n" by (simp add: chunk_ids_def)
      ultimately show ?thesis using assms c emb Inr
        by (simp add: store_document_def Let_def get_collection_stats_def get_collection_def
            collection_count_def n_def)
    qed
  qed
qed

text \<open>
  C3 (a second call of \<^verbatim>\<open>store_document\<close> for the same document appends its chunks to
  the stored ones, each under an id unique in the index) does not hold of the code. Two
  calls for the same document, each with a text of one chunk: the second call offers the
  id \<^verbatim>\<open>chunk_0\<close> again. A store that skips a taken id
  keeps the first text only; a store that rejects it raises. Either way the collection
  holds one chunk, not two.
\<close>

theorem store_document_twice_collides:
  "fst (after_two_stores demo_deps) = Inr ''doc_1'' \<and>
   fst (snd (after_two_stores demo_deps)) = Inr ''doc_1'' \<and>
   stored_chunks (snd (snd (after_two_stores demo_deps))) 1 = [(''chunk_0'', ''alpha'')] \<and>
   st_chunk_count (fst (get_collection_stats (snd (snd (after_two_stores demo_deps))) 1)) = 1 \<and>
   fst (after_two_stores reject_deps) = Inr ''doc_1'' \<and>
   fst (snd (after_two_stores reject_deps)) = Inl DuplicateIDError \<and>
   stored_chunks (snd (snd (after_two_stores reject_deps))) 1 = [(''chunk_0'', ''alpha'')] \<and>
   st_chunk_count (fst (get_collection_stats (snd (snd (after_two_stores reject_deps))) 1)) = 1"
  by (simp add: after_two_stores_def store_document_def collection_name_of_1
      get_collection_def create_collection_def chunk_document_def create_embeddings_def
      demo_deps_def demo_split_text_def demo_encode_def collection_add_def chunk_ids_1
      chunk_metadatas_def make_entries_def Let_def stored_chunks_def
      get_collection_stats_def collection_count_def reject_deps_def)

end
